theory Spec2Isabelle
  imports Complex_Main "HOL-Library.Word"
begin

unbundle bit_operations_syntax

section \<open>The three.js atmosphere demo: data model\<close>

text \<open>
  The development follows the class \<open>Demo\<close> of the three.js port (the variant with
  keyboard presets). Bytes of an \<open>ArrayBuffer\<close> are \<^typ>\<open>8 word\<close>; an element of a
  \<open>Float32Array\<close> is the \<^typ>\<open>32 word\<close> holding the bit pattern of the IEEE-754 single.
\<close>

datatype js_error = TypeError | RangeError | NetworkError

subsection \<open>Numbers\<close>

text \<open>
  Angles and pointer coordinates are modelled as \<^typ>\<open>real\<close>: zenith angles are clamped, and
  azimuth angles and coordinates change by additions only, so that rounding alone separates
  the doubles of the source from them.

  The view distance and the exposure are scaled by the handlers without bound, and the camera
  position is computed from the view distance. For them the range of doubles is modelled: a
  \<open>number\<close> is finite, \<open>Infinity\<close>, \<open>-Infinity\<close> or \<open>NaN\<close>. The result of an operation on
  finite numbers is the exact result brought into the range of doubles by \<open>to_number\<close>: at
  \<open>2 ^ 1024 - 2 ^ 970\<close> and beyond it overflows to an infinity; below the least normal
  double \<open>1 / 2 ^ 1022\<close> it is rounded to the nearest multiple of the least subnormal
  \<open>1 / 2 ^ 1074\<close>, ties to even; in between it is kept as it is, that is, the rounding of the
  significand to 53 bits is left out. Zero has no sign.
\<close>

datatype number = Finite real | PosInfinity | NegInfinity | NaN

definition overflow_threshold :: real where
  "overflow_threshold = 2 ^ 1024 - 2 ^ 970"

definition min_normal :: real where
  "min_normal = 1 / 2 ^ 1022"

definition round_half_even :: "real \<Rightarrow> int" where
  "round_half_even x =
     (let f = \<lfloor>x\<rfloor> in
      if x - of_int f < 1 / 2 then f
      else if 1 / 2 < x - of_int f then f + 1
      else if even f then f else f + 1)"

definition to_number :: "real \<Rightarrow> number" where
  "to_number x =
     (if overflow_threshold \<le> \<bar>x\<bar> then (if 0 < x then PosInfinity else NegInfinity)
      else if \<bar>x\<bar> < min_normal then Finite (of_int (round_half_even (x * 2 ^ 1074)) / 2 ^ 1074)
      else Finite x)"

text \<open>The operators \<open>*\<close> and \<open>/\<close> of the source on numbers.\<close>

fun js_times :: "number \<Rightarrow> number \<Rightarrow> number" where
  "js_times NaN y = NaN"
| "js_times x NaN = NaN"
| "js_times (Finite a) (Finite b) = to_number (a * b)"
| "js_times (Finite a) y =
     (if a = 0 then NaN else if (0 < a) = (y = PosInfinity) then PosInfinity else NegInfinity)"
| "js_times x (Finite b) =
     (if b = 0 then NaN else if (0 < b) = (x = PosInfinity) then PosInfinity else NegInfinity)"
| "js_times x y = (if x = y then PosInfinity else NegInfinity)"

fun js_divide :: "number \<Rightarrow> number \<Rightarrow> number" where
  "js_divide NaN y = NaN"
| "js_divide x NaN = NaN"
| "js_divide (Finite a) (Finite b) =
     (if b = 0 then (if a = 0 then NaN else if 0 < a then PosInfinity else NegInfinity)
      else to_number (a / b))"
| "js_divide (Finite a) y = Finite 0"
| "js_divide x (Finite b) =
     (if (0 \<le> b) = (x = PosInfinity) then PosInfinity else NegInfinity)"
| "js_divide x y = NaN"

type_synonym vec3 = "real \<times> real \<times> real"

type_synonym number3 = "number \<times> number \<times> number"

subsection \<open>Constants of the module\<close>

definition TRANSMITTANCE_TEXTURE_WIDTH :: nat where "TRANSMITTANCE_TEXTURE_WIDTH = 256"
definition TRANSMITTANCE_TEXTURE_HEIGHT :: nat where "TRANSMITTANCE_TEXTURE_HEIGHT = 64"
definition SCATTERING_TEXTURE_WIDTH :: nat where "SCATTERING_TEXTURE_WIDTH = 256"
definition SCATTERING_TEXTURE_HEIGHT :: nat where "SCATTERING_TEXTURE_HEIGHT = 128"
definition SCATTERING_TEXTURE_DEPTH :: nat where "SCATTERING_TEXTURE_DEPTH = 32"
definition IRRADIANCE_TEXTURE_WIDTH :: nat where "IRRADIANCE_TEXTURE_WIDTH = 64"
definition IRRADIANCE_TEXTURE_HEIGHT :: nat where "IRRADIANCE_TEXTURE_HEIGHT = 16"
definition kSunAngularRadius :: real where "kSunAngularRadius = 0.00935 / 2"
definition kLengthUnitInMeters :: real where "kLengthUnitInMeters = 1000"

subsection \<open>Typed arrays\<close>

text \<open>
  \<open>new Float32Array(buffer)\<close> views the buffer as 4-byte elements in platform (little-endian)
  byte order. It throws a \<open>RangeError\<close> when the byte length is not a multiple of 4 and makes
  no other check.
\<close>

definition float32_le :: "8 word \<Rightarrow> 8 word \<Rightarrow> 8 word \<Rightarrow> 8 word \<Rightarrow> 32 word" where
  "float32_le b0 b1 b2 b3 =
     ucast b0 OR push_bit 8 (ucast b1) OR push_bit 16 (ucast b2) OR push_bit 24 (ucast b3)"

fun float32_elements :: "8 word list \<Rightarrow> 32 word list" where
  "float32_elements (b0 # b1 # b2 # b3 # rest) = float32_le b0 b1 b2 b3 # float32_elements rest"
| "float32_elements _ = []"

definition Float32Array :: "8 word list \<Rightarrow> js_error + 32 word list" where
  "Float32Array buffer =
     (if length buffer mod 4 \<noteq> 0 then Inl RangeError else Inr (float32_elements buffer))"

subsection \<open>Textures\<close>

datatype texture_filter = NearestFilter | LinearFilter

datatype texture_type = UnsignedByteType | FloatType

record texture =
  image_data :: "32 word list"
  image_width :: nat
  image_height :: nat
  image_depth :: "nat option"
  magFilter :: texture_filter
  minFilter :: texture_filter
  internalFormat :: "string option"
  tex_type :: texture_type
  needsUpdate :: bool

text \<open>
  The constructors of three.js store the data and the dimensions as given, without comparing
  them; the other fields start at the library's defaults (nearest filtering, unsigned bytes,
  no internal format) and are overwritten by \<open>loadTextures\<close>.
\<close>

definition DataTexture :: "32 word list \<Rightarrow> nat \<Rightarrow> nat \<Rightarrow> texture" where
  "DataTexture data w h =
     \<lparr>image_data = data, image_width = w, image_height = h, image_depth = None,
      magFilter = NearestFilter, minFilter = NearestFilter, internalFormat = None,
      tex_type = UnsignedByteType, needsUpdate = False\<rparr>"

definition Data3DTexture :: "32 word list \<Rightarrow> nat \<Rightarrow> nat \<Rightarrow> nat \<Rightarrow> texture" where
  "Data3DTexture data w h d =
     \<lparr>image_data = data, image_width = w, image_height = h, image_depth = Some d,
      magFilter = NearestFilter, minFilter = NearestFilter, internalFormat = None,
      tex_type = UnsignedByteType, needsUpdate = False\<rparr>"

text \<open>The three assets, with the dimensions \<open>loadTextures\<close> passes for each.\<close>

datatype asset = Transmittance | Scattering | Irradiance

fun asset_file :: "asset \<Rightarrow> string" where
  "asset_file Transmittance = ''/transmittance.dat''"
| "asset_file Scattering = ''/scattering.dat''"
| "asset_file Irradiance = ''/irradiance.dat''"

fun asset_width :: "asset \<Rightarrow> nat" where
  "asset_width Transmittance = TRANSMITTANCE_TEXTURE_WIDTH"
| "asset_width Scattering = SCATTERING_TEXTURE_WIDTH"
| "asset_width Irradiance = IRRADIANCE_TEXTURE_WIDTH"

fun asset_height :: "asset \<Rightarrow> nat" where
  "asset_height Transmittance = TRANSMITTANCE_TEXTURE_HEIGHT"
| "asset_height Scattering = SCATTERING_TEXTURE_HEIGHT"
| "asset_height Irradiance = IRRADIANCE_TEXTURE_HEIGHT"

fun asset_depth :: "asset \<Rightarrow> nat option" where
  "asset_depth Transmittance = None"
| "asset_depth Scattering = Some SCATTERING_TEXTURE_DEPTH"
| "asset_depth Irradiance = None"

definition asset_floats :: "asset \<Rightarrow> nat" where
  "asset_floats a =
     asset_width a * asset_height a * (case asset_depth a of None \<Rightarrow> 1 | Some d \<Rightarrow> d) * 4"

subsection \<open>The network, as \<open>loadTextures\<close> sees it\<close>

text \<open>
  \<open>fetch(file).then((res) => res.arrayBuffer())\<close> either rejects or delivers the bytes of the
  body. The network answers the \<open>k\<close>-th request for a file with \<open>respond file k\<close>, so that a
  second request could be answered differently from the first, and keeps a log of the requests
  made. \<open>status file k\<close> is the HTTP status of that answer; the source never reads
  \<open>res.ok\<close> or \<open>res.status\<close>, so a body delivered with any status is an \<open>Inr\<close>.
  \<open>settles file k\<close> is the instant at which the promise built on that request settles.
\<close>

record network =
  respond :: "string \<Rightarrow> nat \<Rightarrow> js_error + 8 word list"
  status :: "string \<Rightarrow> nat \<Rightarrow> nat"
  settles :: "string \<Rightarrow> nat \<Rightarrow> nat"
  requests :: "string list"

definition fetch_arrayBuffer :: "string \<Rightarrow> network \<Rightarrow> (js_error + 8 word list) \<times> network" where
  "fetch_arrayBuffer file net =
     (respond net file (count_list (requests net) file),
      net\<lparr>requests := requests net @ [file]\<rparr>)"

text \<open>
  One element of the mapped array: fetch, read the body, view it as floats. The promise comes
  with the instant at which it settles.
\<close>

definition load_dat ::
  "string \<Rightarrow> network \<Rightarrow> (nat \<times> (js_error + 32 word list)) \<times> network" where
  "load_dat file net =
     (case fetch_arrayBuffer file net of
        (Inl e, net') \<Rightarrow> ((settles net file (count_list (requests net) file), Inl e), net')
      | (Inr buffer, net') \<Rightarrow>
          ((settles net file (count_list (requests net) file), Float32Array buffer), net'))"

text \<open>\<open>files.map(...)\<close> starts every request before any result is awaited.\<close>

fun map_load_dat ::
  "string list \<Rightarrow> network \<Rightarrow> (nat \<times> (js_error + 32 word list)) list \<times> network" where
  "map_load_dat [] net = ([], net)"
| "map_load_dat (file # files) net =
     (case load_dat file net of
        (r, net') \<Rightarrow> (case map_load_dat files net' of (rs, net'') \<Rightarrow> (r # rs, net'')))"

text \<open>
  \<open>Promise.all\<close> delivers all values in order when every promise is fulfilled, and otherwise
  rejects with the reason of the promise that is the first to reject: the one with the least
  instant among the rejected ones (the first of them in the array, should two instants be
  equal).
\<close>

fun rejections :: "(nat \<times> (js_error + 'a)) list \<Rightarrow> (nat \<times> js_error) list" where
  "rejections [] = []"
| "rejections ((t, Inl e) # promises) = (t, e) # rejections promises"
| "rejections ((t, Inr v) # promises) = rejections promises"

fun fulfilled :: "(nat \<times> (js_error + 'a)) list \<Rightarrow> 'a list" where
  "fulfilled [] = []"
| "fulfilled ((t, Inl e) # promises) = fulfilled promises"
| "fulfilled ((t, Inr v) # promises) = v # fulfilled promises"

fun earliest :: "nat \<times> js_error \<Rightarrow> (nat \<times> js_error) list \<Rightarrow> js_error" where
  "earliest r [] = snd r"
| "earliest r (r' # rs) = earliest (if fst r' < fst r then r' else r) rs"

definition Promise_all :: "(nat \<times> (js_error + 'a)) list \<Rightarrow> js_error + 'a list" where
  "Promise_all promises =
     (case rejections promises of
        [] \<Rightarrow> Inr (fulfilled promises)
      | r # rs \<Rightarrow> Inl (earliest r rs))"

subsection \<open>The demo object\<close>

datatype drag_target = Sun | Camera

record perspective_camera =
  position :: number3
  up :: vec3
  lookTarget :: vec3

record uniforms =
  transmittance_texture :: "texture option"
  scattering_texture :: "texture option"
  single_mie_scattering_texture :: texture
  irradiance_texture :: "texture option"
  white_point :: vec3
  exposure :: number
  earth_center :: vec3
  sun_direction :: vec3
  sun_size :: "real \<times> real"

datatype scene_object = SkyMesh | AmbientLight real | GridHelper | AxesHelper

record scene =
  children :: "scene_object list"
  scene_up :: vec3

text \<open>
  The fields of \<open>Demo\<close>. The constructor calls \<open>init\<close>, which runs \<open>setupRenderer\<close>,
  \<open>setupCamera\<close> and \<open>setupControls\<close> before its first \<open>await\<close>; no handler can run before
  that, so the camera and the control fields are plain fields. The material, the scene and
  the textures are \<open>null\<close> or \<open>undefined\<close> while the assets load (the pointer handlers are
  already registered then) and stay so when loading fails: they are options. The uniform
  \<open>camera\<close> of the material is the very object \<open>camera.position\<close>, so it has no field of its
  own. \<open>helpDisplay\<close> is \<open>style.display\<close> of the document's help element, \<open>None\<close> when the
  document has no such element.
\<close>

record demo =
  camera :: perspective_camera
  scene :: "scene option"
  material :: "uniforms option"
  sunZenithAngleRadians :: real
  sunAzimuthAngleRadians :: real
  drag :: "drag_target option"
  previousMouseX :: real
  previousMouseY :: real
  viewZenithAngleRadians :: real
  viewAzimuthAngleRadians :: real
  viewDistanceMeters :: number
  transmittanceTexture :: "texture option"
  scatteringTexture :: "texture option"
  irradianceTexture :: "texture option"
  windowListeners :: bool
  animationLoop :: bool
  helpDisplay :: "string option"

record mouse_event =
  offsetX :: real
  offsetY :: real
  ctrlKey :: bool

record wheel_event =
  deltaY :: real
  defaultPrevented :: bool

subsection \<open>Set-up\<close>

definition setupCamera :: perspective_camera where
  "setupCamera =
     \<lparr>position = (Finite 0, Finite (-9), Finite 0.9), up = (0, 0, 1), lookTarget = (0, 0, 0)\<rparr>"

text \<open>
  The object when \<open>init\<close> reaches its first \<open>await\<close>: the constructor's fields, the camera of
  \<open>setupCamera\<close> and the fields of \<open>setupControls\<close>.
\<close>

definition Demo :: "string option \<Rightarrow> demo" where
  "Demo help =
     \<lparr>camera = setupCamera, scene = None, material = None,
      sunZenithAngleRadians = 1.3, sunAzimuthAngleRadians = 2.9,
      drag = None, previousMouseX = 0, previousMouseY = 0,
      viewZenithAngleRadians = 1.47, viewAzimuthAngleRadians = 0,
      viewDistanceMeters = Finite 9000,
      transmittanceTexture = None, scatteringTexture = None, irradianceTexture = None,
      windowListeners = False, animationLoop = False, helpDisplay = help\<rparr>"

text \<open>
  \<open>loadTextures\<close>. The renderer enters through the list of extensions its context has. When
  the awaited \<open>Promise.all\<close> rejects, the function throws before any field is assigned.
  Three promises always deliver three values; the branch for a list of another length only
  completes the case distinction.
\<close>

definition extensions_has :: "string list \<Rightarrow> string \<Rightarrow> bool" where
  "extensions_has extensions name = (name \<in> set extensions)"

definition loadTextures ::
  "string list \<Rightarrow> demo \<Rightarrow> network \<Rightarrow> (js_error option \<times> demo) \<times> network" where
  "loadTextures extensions this net =
     (case map_load_dat [''/transmittance.dat'', ''/scattering.dat'', ''/irradiance.dat''] net of
        (promises, net') \<Rightarrow>
          (case Promise_all promises of
             Inr [transmittanceData, scatteringData, irradianceData] \<Rightarrow>
               ((None,
                 this\<lparr>transmittanceTexture := Some
                        ((DataTexture transmittanceData
                            TRANSMITTANCE_TEXTURE_WIDTH TRANSMITTANCE_TEXTURE_HEIGHT)
                         \<lparr>magFilter := LinearFilter, minFilter := LinearFilter,
                          internalFormat := Some
                            (if extensions_has extensions ''OES_texture_float_linear''
                             then ''RGBA32F'' else ''RGBA16F''),
                          tex_type := FloatType, needsUpdate := True\<rparr>),
                      scatteringTexture := Some
                        ((Data3DTexture scatteringData SCATTERING_TEXTURE_WIDTH
                            SCATTERING_TEXTURE_HEIGHT SCATTERING_TEXTURE_DEPTH)
                         \<lparr>magFilter := LinearFilter, minFilter := LinearFilter,
                          internalFormat := Some ''RGBA16F'',
                          tex_type := FloatType, needsUpdate := True\<rparr>),
                      irradianceTexture := Some
                        ((DataTexture irradianceData
                            IRRADIANCE_TEXTURE_WIDTH IRRADIANCE_TEXTURE_HEIGHT)
                         \<lparr>magFilter := LinearFilter, minFilter := LinearFilter,
                          internalFormat := Some ''RGBA16F'',
                          tex_type := FloatType, needsUpdate := True\<rparr>)\<rparr>),
                net')
           | Inr _ \<Rightarrow> ((Some TypeError, this), net')
           | Inl e \<Rightarrow> ((Some e, this), net')))"

text \<open>
  The block that \<open>setView\<close>, \<open>onMouseMove\<close> and \<open>onMouseWheel\<close> each repeat: the Cartesian
  coordinates \<open>x\<close>, \<open>y\<close>, \<open>z\<close> of the point at \<open>distance\<close> with the given zenith and azimuth.
  The products are formed from left to right, as in the source. The sine and the cosine of an
  angle lie in \<open>[-1, 1]\<close> and enter as they are.
\<close>

definition spherical :: "number \<Rightarrow> real \<Rightarrow> real \<Rightarrow> number3" where
  "spherical distance zenith azimuth =
     (js_times (js_times distance (Finite (sin zenith))) (Finite (cos azimuth)),
      js_times (js_times distance (Finite (sin zenith))) (Finite (sin azimuth)),
      js_times distance (Finite (cos zenith)))"

text \<open>\<open>camera.position.set(x, y, z); camera.lookAt(0, 0, 0)\<close>\<close>

definition place_camera :: "demo \<Rightarrow> demo" where
  "place_camera this =
     this\<lparr>camera := (camera this)
       \<lparr>position := spherical
                       (js_divide (viewDistanceMeters this) (Finite kLengthUnitInMeters))
                       (viewZenithAngleRadians this) (viewAzimuthAngleRadians this),
        lookTarget := (0, 0, 0)\<rparr>\<rparr>"

text \<open>The vector \<open>sunDirection\<close> that \<open>setupScene\<close>, \<open>onMouseMove\<close> and \<open>setView\<close> build.\<close>

definition sunDirection :: "demo \<Rightarrow> vec3" where
  "sunDirection this =
     (sin (sunZenithAngleRadians this) * cos (sunAzimuthAngleRadians this),
      sin (sunZenithAngleRadians this) * sin (sunAzimuthAngleRadians this),
      cos (sunZenithAngleRadians this))"

definition setupScene :: "demo \<Rightarrow> demo" where
  "setupScene this =
     this\<lparr>material := Some
            \<lparr>transmittance_texture = transmittanceTexture this,
             scattering_texture = scatteringTexture this,
             single_mie_scattering_texture = Data3DTexture [] 1 1 1,
             irradiance_texture = irradianceTexture this,
             white_point = (1, 1, 1),
             exposure = Finite 10,
             earth_center = (0, 0, - 6360000 / kLengthUnitInMeters),
             sun_direction = sunDirection this,
             sun_size = (tan kSunAngularRadius, cos kSunAngularRadius)\<rparr>,
          scene := Some
            \<lparr>children = [SkyMesh, AmbientLight 0.3, GridHelper, AxesHelper],
             scene_up = (0, 0, 1)\<rparr>\<rparr>"

definition setupEventListeners :: "demo \<Rightarrow> demo" where
  "setupEventListeners this = this\<lparr>windowListeners := True\<rparr>"

definition startAnimationLoop :: "demo \<Rightarrow> demo" where
  "startAnimationLoop this = this\<lparr>animationLoop := True\<rparr>"

text \<open>
  A handler that can throw returns the exception (if any) with the object as it is then:
  reading \<open>this.material.uniforms\<close> while the material is \<open>null\<close> throws a \<open>TypeError\<close>, and
  the assignments made before that stay.
\<close>

definition setView ::
  "number \<Rightarrow> real \<Rightarrow> real \<Rightarrow> real \<Rightarrow> real \<Rightarrow> number \<Rightarrow> demo \<Rightarrow> js_error option \<times> demo" where
  "setView viewDistance viewZenith viewAzimuth sunZenith sunAzimuth exposure' this =
     (let this1 = place_camera
            (this\<lparr>viewDistanceMeters := viewDistance,
                  viewZenithAngleRadians := viewZenith,
                  viewAzimuthAngleRadians := viewAzimuth,
                  sunZenithAngleRadians := sunZenith,
                  sunAzimuthAngleRadians := sunAzimuth\<rparr>)
      in case material this1 of
           None \<Rightarrow> (Some TypeError, this1)
         | Some m \<Rightarrow>
             (None, this1\<lparr>material :=
                Some (m\<lparr>sun_direction := sunDirection this1, exposure := exposure'\<rparr>)\<rparr>))"

definition init ::
  "string list \<Rightarrow> string option \<Rightarrow> network \<Rightarrow> (js_error option \<times> demo) \<times> network" where
  "init extensions help net =
     (case loadTextures extensions (Demo help) net of
        ((Some e, this), net') \<Rightarrow> ((Some e, this), net')
      | ((None, this), net') \<Rightarrow>
          (case setView (Finite 9000) 1.47 0 1.3 3 (Finite 10)
                  (setupEventListeners (setupScene this)) of
             (Some e, this') \<Rightarrow> ((Some e, this'), net')
           | (None, this') \<Rightarrow> ((None, startAnimationLoop this'), net')))"

subsection \<open>Pointer and wheel handlers\<close>

definition onMouseDown :: "mouse_event \<Rightarrow> demo \<Rightarrow> demo" where
  "onMouseDown event this =
     (let this1 = this\<lparr>previousMouseX := offsetX event, previousMouseY := offsetY event\<rparr>
      in if ctrlKey event then this1\<lparr>drag := Some Sun\<rparr> else this1\<lparr>drag := Some Camera\<rparr>)"

definition kScale :: real where "kScale = 500"

definition onMouseMove :: "mouse_event \<Rightarrow> demo \<Rightarrow> js_error option \<times> demo" where
  "onMouseMove event this =
     (case drag this of
        None \<Rightarrow> (None, this)
      | Some Sun \<Rightarrow>
          (let mouseX = offsetX event; mouseY = offsetY event;
               this1 = this\<lparr>sunZenithAngleRadians :=
                          sunZenithAngleRadians this - (previousMouseY this - mouseY) / kScale\<rparr>;
               this2 = this1\<lparr>sunZenithAngleRadians :=
                          max 0 (min pi (sunZenithAngleRadians this1))\<rparr>;
               this3 = this2\<lparr>sunAzimuthAngleRadians :=
                          sunAzimuthAngleRadians this2 + (previousMouseX this2 - mouseX) / kScale\<rparr>
           in case material this3 of
                None \<Rightarrow> (Some TypeError, this3)
              | Some m \<Rightarrow>
                  (None, this3\<lparr>material := Some (m\<lparr>sun_direction := sunDirection this3\<rparr>),
                               previousMouseX := mouseX, previousMouseY := mouseY\<rparr>))
      | Some Camera \<Rightarrow>
          (let mouseX = offsetX event; mouseY = offsetY event;
               this1 = this\<lparr>viewZenithAngleRadians :=
                          viewZenithAngleRadians this + (previousMouseY this - mouseY) / kScale\<rparr>;
               this2 = this1\<lparr>viewZenithAngleRadians :=
                          max 0 (min (pi / 2) (viewZenithAngleRadians this1))\<rparr>;
               this3 = this2\<lparr>viewAzimuthAngleRadians :=
                          viewAzimuthAngleRadians this2 + (previousMouseX this2 - mouseX) / kScale\<rparr>
           in (None, (place_camera this3)\<lparr>previousMouseX := mouseX, previousMouseY := mouseY\<rparr>)))"

definition onMouseUp :: "mouse_event \<Rightarrow> demo \<Rightarrow> demo" where
  "onMouseUp event this = this\<lparr>drag := None\<rparr>"

definition onMouseWheel :: "wheel_event \<Rightarrow> demo \<Rightarrow> demo \<times> wheel_event" where
  "onMouseWheel event this =
     (place_camera
        (this\<lparr>viewDistanceMeters :=
                js_times (viewDistanceMeters this)
                  (if deltaY event > 0 then Finite 1.05
                   else js_divide (Finite 1) (Finite 1.05))\<rparr>),
      event\<lparr>defaultPrevented := True\<rparr>)"

subsection \<open>Keyboard handler\<close>

definition scale_exposure :: "(number \<Rightarrow> number) \<Rightarrow> demo \<Rightarrow> js_error option \<times> demo" where
  "scale_exposure f this =
     (case material this of
        None \<Rightarrow> (Some TypeError, this)
      | Some m \<Rightarrow> (None, this\<lparr>material := Some (m\<lparr>exposure := f (exposure m)\<rparr>)\<rparr>))"

definition onKeyPress :: "string \<Rightarrow> demo \<Rightarrow> js_error option \<times> demo" where
  "onKeyPress key this =
     (if key = ''h'' then
        (case helpDisplay this of
           None \<Rightarrow> (None, this)
         | Some display \<Rightarrow>
             (None, this\<lparr>helpDisplay := Some (if display = ''none'' then ''block'' else ''none'')\<rparr>))
      else if key = ''+'' then scale_exposure (\<lambda>v. js_times v (Finite 1.1)) this
      else if key = ''-'' then scale_exposure (\<lambda>v. js_divide v (Finite 1.1)) this
      else if key = ''1'' then setView (Finite 9000) 1.47 0 1.3 3 (Finite 10) this
      else if key = ''2'' then setView (Finite 9000) 1.47 0 1.564 (-3) (Finite 10) this
      else if key = ''3'' then setView (Finite 7000) 1.57 0 1.54 (-2.96) (Finite 10) this
      else if key = ''4'' then setView (Finite 7000) 1.57 0 1.328 (-3.044) (Finite 10) this
      else if key = ''5'' then setView (Finite 9000) 1.39 0 1.2 0.7 (Finite 10) this
      else if key = ''6'' then setView (Finite 9000) 1.5 0 1.628 1.05 (Finite 200) this
      else if key = ''7'' then setView (Finite 7000) 1.43 0 1.57 1.34 (Finite 40) this
      else if key = ''8'' then setView (Finite 2700000) 0.81 0 1.57 2 (Finite 10) this
      else if key = ''9'' then setView (Finite 12000000) 0.0 0 0.93 (-2) (Finite 10) this
      else (None, this))"

subsection \<open>Pointer gestures\<close>

text \<open>
  The pointer events as the canvas delivers them. An exception that a handler leaves uncaught
  is reported by the host; the object stays as the handler left it.
\<close>

datatype pointer_event = MouseDown mouse_event | MouseMove mouse_event | MouseUp mouse_event

fun dispatch :: "pointer_event \<Rightarrow> demo \<Rightarrow> demo" where
  "dispatch (MouseDown event) this = onMouseDown event this"
| "dispatch (MouseMove event) this = snd (onMouseMove event this)"
| "dispatch (MouseUp event) this = onMouseUp event this"

definition deliver :: "pointer_event list \<Rightarrow> demo \<Rightarrow> demo" where
  "deliver events this = fold dispatch events this"

definition scroll :: "wheel_event list \<Rightarrow> demo \<Rightarrow> demo" where
  "scroll events this = fold (\<lambda>event this. fst (onMouseWheel event this)) events this"

section \<open>Notions used to state the properties\<close>

text \<open>
  \<open>answer net a\<close> is what the network delivers for the request that \<open>loadTextures\<close> makes for
  asset \<open>a\<close>, and \<open>settled net a\<close> is what the promise of that asset settles to: a rejection
  (\<open>Inl\<close>) when the fetch fails or when the bytes cannot be viewed as floats.
  \<open>settle_time net a\<close> is the instant at which it does so.
\<close>

definition answer :: "network \<Rightarrow> asset \<Rightarrow> js_error + 8 word list" where
  "answer net a = respond net (asset_file a) (count_list (requests net) (asset_file a))"

definition settled :: "network \<Rightarrow> asset \<Rightarrow> js_error + 32 word list" where
  "settled net a = (case answer net a of Inl e \<Rightarrow> Inl e | Inr buffer \<Rightarrow> Float32Array buffer)"

definition settle_time :: "network \<Rightarrow> asset \<Rightarrow> nat" where
  "settle_time net a = settles net (asset_file a) (count_list (requests net) (asset_file a))"

definition asset_files :: "string list" where
  "asset_files = [asset_file Transmittance, asset_file Scattering, asset_file Irradiance]"

text \<open>
  A real is \<open>representable\<close> when \<open>to_number\<close> keeps it: it is zero, or its magnitude lies in
  the range of the normal doubles. The squared norm is that of a vector of finite numbers; a
  vector with an infinite or \<open>NaN\<close> component has none.
\<close>

definition representable :: "real \<Rightarrow> bool" where
  "representable x = (x = 0 \<or> (min_normal \<le> \<bar>x\<bar> \<and> \<bar>x\<bar> < overflow_threshold))"

definition squared_norm :: "number3 \<Rightarrow> real option" where
  "squared_norm v =
     (case v of
        (Finite x, Finite y, Finite z) \<Rightarrow> Some (x * x + y * y + z * z)
      | _ \<Rightarrow> None)"

text \<open>
  \<open>exact_products d z a\<close>: none of the products that the placing of the camera forms from the
  distance \<open>d\<close> and the angles overflows or underflows. \<open>camera_placed\<close>: the camera is where
  the placing block puts it for the current view distance and view angles, looking at the
  origin.
\<close>

definition exact_products :: "real \<Rightarrow> real \<Rightarrow> real \<Rightarrow> bool" where
  "exact_products d z a =
     (representable (d * sin z) \<and> representable (d * sin z * cos a) \<and>
      representable (d * sin z * sin a) \<and> representable (d * cos z))"

definition camera_placed :: "demo \<Rightarrow> bool" where
  "camera_placed this =
     (position (camera this) =
        spherical (js_divide (viewDistanceMeters this) (Finite kLengthUnitInMeters))
          (viewZenithAngleRadians this) (viewAzimuthAngleRadians this) \<and>
      lookTarget (camera this) = (0, 0, 0))"

text \<open>
  Four networks for concrete runs: one that answers every request with eight zero bytes, one
  whose first answer for the scattering table is a failure (a second request would succeed),
  one that delivers three bytes for the irradiance table, and one that has no scattering
  table and answers the request for it with status 404 and a body of four bytes.
\<close>

definition short_network :: network where
  "short_network =
     \<lparr>respond = (\<lambda>file k. Inr [0, 0, 0, 0, 0, 0, 0, 0]),
      status = (\<lambda>file k. 200), settles = (\<lambda>file k. 0),
      requests = []\<rparr>"

definition flaky_network :: network where
  "flaky_network =
     \<lparr>respond = (\<lambda>file k. if file = ''/scattering.dat'' \<and> k = 0 then Inl NetworkError else Inr []),
      status = (\<lambda>file k. 200), settles = (\<lambda>file k. 0),
      requests = []\<rparr>"

definition odd_network :: network where
  "odd_network =
     \<lparr>respond = (\<lambda>file k. if file = ''/irradiance.dat'' then Inr [1, 2, 3] else Inr []),
      status = (\<lambda>file k. 200), settles = (\<lambda>file k. 0),
      requests = []\<rparr>"

definition notfound_network :: network where
  "notfound_network =
     \<lparr>respond = (\<lambda>file k. if file = ''/scattering.dat'' then Inr [110, 111, 112, 101]
                            else Inr [0, 0, 0, 0, 0, 0, 0, 0]),
      status = (\<lambda>file k. if file = ''/scattering.dat'' then 404 else 200),
      settles = (\<lambda>file k. 0),
      requests = []\<rparr>"

definition reply_status :: "network \<Rightarrow> asset \<Rightarrow> nat" where
  "reply_status net a = status net (asset_file a) (count_list (requests net) (asset_file a))"

text \<open>
  Pointer and wheel events for concrete runs: presses at the origin without and with the
  control key, a move to (100, 250), a press far below and a press far above with the control
  key held, and wheel events of positive, negative and zero vertical delta. \<open>far_away\<close> is
  the object after 14362 wheel events of positive delta.
\<close>

definition press_camera :: mouse_event where
  "press_camera = \<lparr>offsetX = 0, offsetY = 0, ctrlKey = False\<rparr>"

definition press_sun :: mouse_event where
  "press_sun = \<lparr>offsetX = 0, offsetY = 0, ctrlKey = True\<rparr>"

definition move_away :: mouse_event where
  "move_away = \<lparr>offsetX = 100, offsetY = 250, ctrlKey = False\<rparr>"

definition far_down :: mouse_event where
  "far_down = \<lparr>offsetX = 0, offsetY = 1000000, ctrlKey = False\<rparr>"

definition far_up :: mouse_event where
  "far_up = \<lparr>offsetX = 0, offsetY = - 1000000, ctrlKey = True\<rparr>"

definition wheel_down :: wheel_event where
  "wheel_down = \<lparr>deltaY = 100, defaultPrevented = False\<rparr>"

definition wheel_up :: wheel_event where
  "wheel_up = \<lparr>deltaY = - 100, defaultPrevented = False\<rparr>"

definition wheel_still :: wheel_event where
  "wheel_still = \<lparr>deltaY = 0, defaultPrevented = False\<rparr>"

definition far_away :: demo where
  "far_away = scroll (replicate 14362 wheel_down) (Demo None)"


section \<open>Loading the assets\<close>

lemmas texture_constants =
  TRANSMITTANCE_TEXTURE_WIDTH_def TRANSMITTANCE_TEXTURE_HEIGHT_def
  SCATTERING_TEXTURE_WIDTH_def SCATTERING_TEXTURE_HEIGHT_def SCATTERING_TEXTURE_DEPTH_def
  IRRADIANCE_TEXTURE_WIDTH_def IRRADIANCE_TEXTURE_HEIGHT_def

lemma length_float32_elements: "length (float32_elements bs) = length bs div 4"
  by (induction bs rule: float32_elements.induct) simp_all

lemma asset_floats_values:
  "asset_floats Transmittance = 65536" "asset_floats Scattering = 4194304"
  "asset_floats Irradiance = 4096"
  by (simp_all add: asset_floats_def texture_constants)

lemma map_load_dat_three:
  "map_load_dat [''/transmittance.dat'', ''/scattering.dat'', ''/irradiance.dat''] net =
     ([(settle_time net Transmittance, settled net Transmittance),
       (settle_time net Scattering, settled net Scattering),
       (settle_time net Irradiance, settled net Irradiance)],
      net\<lparr>requests := requests net @ asset_files\<rparr>)"
  by (simp add: load_dat_def fetch_arrayBuffer_def settled_def answer_def asset_files_def
        settle_time_def split: sum.splits)

lemma Promise_all_fulfilled:
  "Promise_all [(t1, Inr v1), (t2, Inr v2), (t3, Inr v3)] = Inr [v1, v2, v3]"
  by (simp add: Promise_all_def)

lemma Promise_all_rejected:
  assumes "isl r1 \<or> isl r2 \<or> isl r3"
  shows "\<exists>e. Promise_all [(t1, r1), (t2, r2), (t3, r3)] = Inl e"
  using assms by (cases r1; cases r2; cases r3) (simp_all add: Promise_all_def)

text \<open>
  Of two rejected promises the one that settles first gives the reason, wherever it stands
  in the array.
\<close>

lemma Promise_all_first_in_time:
  "Promise_all [(5, Inl NetworkError), (2, Inl RangeError), (7, Inr v)] = Inl RangeError"
  by (simp add: Promise_all_def)

lemma loadTextures_rejected:
  assumes "isl (settled net a)"
  shows "\<exists>e. loadTextures extensions this net =
           ((Some e, this), net\<lparr>requests := requests net @ asset_files\<rparr>)"
proof -
  have "isl (settled net Transmittance) \<or> isl (settled net Scattering) \<or>
      isl (settled net Irradiance)"
    using assms by (cases a) simp_all
  from Promise_all_rejected [OF this]
  obtain e where "Promise_all
      [(settle_time net Transmittance, settled net Transmittance),
       (settle_time net Scattering, settled net Scattering),
       (settle_time net Irradiance, settled net Irradiance)] = Inl e"
    by blast
  then show ?thesis
    by (simp add: loadTextures_def map_load_dat_three del: map_load_dat.simps)
qed

lemma loadTextures_resolved:
  assumes "settled net Transmittance = Inr transmittanceData"
    and "settled net Scattering = Inr scatteringData"
    and "settled net Irradiance = Inr irradianceData"
  shows "loadTextures extensions this net =
     ((None,
       this\<lparr>transmittanceTexture := Some
              ((DataTexture transmittanceData
                  TRANSMITTANCE_TEXTURE_WIDTH TRANSMITTANCE_TEXTURE_HEIGHT)
               \<lparr>magFilter := LinearFilter, minFilter := LinearFilter,
                internalFormat := Some
                  (if extensions_has extensions ''OES_texture_float_linear''
                   then ''RGBA32F'' else ''RGBA16F''),
                tex_type := FloatType, needsUpdate := True\<rparr>),
            scatteringTexture := Some
              ((Data3DTexture scatteringData SCATTERING_TEXTURE_WIDTH
                  SCATTERING_TEXTURE_HEIGHT SCATTERING_TEXTURE_DEPTH)
               \<lparr>magFilter := LinearFilter, minFilter := LinearFilter,
                internalFormat := Some ''RGBA16F'',
                tex_type := FloatType, needsUpdate := True\<rparr>),
            irradianceTexture := Some
              ((DataTexture irradianceData
                  IRRADIANCE_TEXTURE_WIDTH IRRADIANCE_TEXTURE_HEIGHT)
               \<lparr>magFilter := LinearFilter, minFilter := LinearFilter,
                internalFormat := Some ''RGBA16F'',
                tex_type := FloatType, needsUpdate := True\<rparr>)\<rparr>),
      net\<lparr>requests := requests net @ asset_files\<rparr>)"
  using assms
  by (simp add: loadTextures_def map_load_dat_three Promise_all_fulfilled
           del: map_load_dat.simps)

lemma settled_cases:
  "(\<exists>a. isl (settled net a)) \<or>
   (\<exists>transmittanceData scatteringData irradianceData.
      settled net Transmittance = Inr transmittanceData \<and>
      settled net Scattering = Inr scatteringData \<and>
      settled net Irradiance = Inr irradianceData)"
  by (metis sum.collapse(2))

lemma init_rejected:
  assumes "isl (settled net a)"
  shows "\<exists>e. init extensions help net =
           ((Some e, Demo help), net\<lparr>requests := requests net @ asset_files\<rparr>)"
proof -
  from loadTextures_rejected [OF assms, of extensions "Demo help"]
  obtain e where "loadTextures extensions (Demo help) net =
           ((Some e, Demo help), net\<lparr>requests := requests net @ asset_files\<rparr>)"
    by blast
  then show ?thesis by (simp add: init_def)
qed

lemma setView_with_material:
  "material this = Some m \<Longrightarrow> fst (setView vd vz va sz sa ex this) = None"
  by (simp add: setView_def place_camera_def Let_def)

lemma init_resolved:
  assumes "settled net Transmittance = Inr transmittanceData"
    and "settled net Scattering = Inr scatteringData"
    and "settled net Irradiance = Inr irradianceData"
  shows "fst (fst (init extensions help net)) = None"
    and "scene (snd (fst (init extensions help net))) \<noteq> None"
    and "map_option image_data (transmittanceTexture (snd (fst (init extensions help net))))
           = Some transmittanceData"
    and "map_option image_data (scatteringTexture (snd (fst (init extensions help net))))
           = Some scatteringData"
    and "requests (snd (init extensions help net)) = requests net @ asset_files"
  using assms
  by (simp_all add: init_def loadTextures_resolved [OF assms] setView_def place_camera_def
        setupScene_def setupEventListeners_def startAnimationLoop_def Let_def DataTexture_def
        Data3DTexture_def)

lemma settled_short [simp]: "settled short_network a = Inr [0, 0]"
  by (cases a) (simp_all add: settled_def answer_def short_network_def Float32Array_def
       float32_le_def)


lemma settled_flaky: "settled flaky_network Scattering = Inl NetworkError"
  by (simp add: settled_def answer_def flaky_network_def)

lemma settled_odd: "answer odd_network Irradiance = Inr [1, 2, 3]"
  by (simp add: settled_def answer_def odd_network_def)

lemma loadTextures_short:
  "fst (fst (loadTextures extensions this short_network)) = None"
  "map_option internalFormat
     (transmittanceTexture (snd (fst (loadTextures extensions this short_network)))) =
   Some (Some (if extensions_has extensions ''OES_texture_float_linear''
               then ''RGBA32F'' else ''RGBA16F''))"
  "map_option internalFormat
     (scatteringTexture (snd (fst (loadTextures extensions this short_network)))) =
   Some (Some ''RGBA16F'')"
  "map_option internalFormat
     (irradianceTexture (snd (fst (loadTextures extensions this short_network)))) =
   Some (Some ''RGBA16F'')"
  by (simp_all add: loadTextures_resolved [of short_network "[0, 0]" "[0, 0]" "[0, 0]"]
        DataTexture_def Data3DTexture_def)

text \<open>
  C1, as the code has it. \<open>new Float32Array(buffer)\<close> accepts every buffer whose byte length
  is a multiple of 4 and yields one element per 4 bytes; so a buffer of
  width \<times> height \<times> (depth or 1) \<times> 4 channels \<times> 4 bytes yields exactly
  width \<times> height \<times> (depth or 1) \<times> 4 elements. A byte length that is not a multiple of 4 is
  rejected with a \<open>RangeError\<close>, and then \<open>init\<close> ends with an exception and no scene. The
  byte length is never compared with the dimensions of the asset.
\<close>

theorem decode_length:
  "(length buffer mod 4 = 0 \<longrightarrow>
      Float32Array buffer = Inr (float32_elements buffer) \<and>
      length (float32_elements buffer) = length buffer div 4) \<and>
   (length buffer = asset_floats a * 4 \<longrightarrow>
      (\<exists>data. Float32Array buffer = Inr data \<and> length data = asset_floats a)) \<and>
   (length buffer mod 4 \<noteq> 0 \<longrightarrow> Float32Array buffer = Inl RangeError) \<and>
   (answer net a = Inr buffer \<and> length buffer mod 4 \<noteq> 0 \<longrightarrow>
      (\<exists>e. fst (fst (init extensions help net)) = Some e) \<and>
      scene (snd (fst (init extensions help net))) = None)"
proof (intro conjI impI)
  assume "length buffer mod 4 = 0"
  then show "Float32Array buffer = Inr (float32_elements buffer)"
    by (simp add: Float32Array_def)
next
  show "length (float32_elements buffer) = length buffer div 4"
    by (rule length_float32_elements)
next
  assume "length buffer = asset_floats a * 4"
  then show "\<exists>data. Float32Array buffer = Inr data \<and> length data = asset_floats a"
    by (simp add: Float32Array_def length_float32_elements)
next
  assume "length buffer mod 4 \<noteq> 0"
  then show "Float32Array buffer = Inl RangeError"
    by (simp add: Float32Array_def)
next
  assume bad: "answer net a = Inr buffer \<and> length buffer mod 4 \<noteq> 0"
  then have "isl (settled net a)"
    by (simp add: settled_def Float32Array_def)
  from init_rejected [OF this, of extensions "help"]
  obtain e where e: "init extensions help net =
      ((Some e, Demo help), net\<lparr>requests := requests net @ asset_files\<rparr>)"
    by blast
  show "\<exists>e. fst (fst (init extensions help net)) = Some e"
    by (simp add: e)
  show "scene (snd (fst (init extensions help net))) = None"
    by (simp add: e Demo_def)
qed

theorem decode_length_witness:
  "length (replicate 16384 (0::8 word)) mod 4 = 0 \<and>
   length (replicate 16384 (0::8 word)) = asset_floats Irradiance * 4 \<and>
   (\<exists>data. Float32Array (replicate 16384 0) = Inr data \<and> length data = 4096) \<and>
   length [1, 2, 3 :: 8 word] mod 4 \<noteq> 0 \<and>
   answer odd_network Irradiance = Inr [1, 2, 3] \<and>
   Float32Array [1, 2, 3] = Inl RangeError \<and>
   scene (snd (fst (init [] None odd_network))) = None"
  using decode_length [of "replicate 16384 0" Irradiance odd_network "[]" None]
        decode_length [of "[1, 2, 3]" Irradiance odd_network "[]" None]
  by (simp add: asset_floats_values settled_odd)

text \<open>
  A buffer of 8 bytes is not of the size of the transmittance table, yet it is decoded into
  two elements and \<open>init\<close> builds the scene with it.
\<close>

theorem decode_accepts_other_length:
  "length [0, 0, 0, 0, 0, 0, 0, 0 :: 8 word] \<noteq> asset_floats Transmittance * 4 \<and>
   answer short_network Transmittance = Inr [0, 0, 0, 0, 0, 0, 0, 0] \<and>
   Float32Array [0, 0, 0, 0, 0, 0, 0, 0] = Inr [0, 0] \<and>
   fst (fst (init [] None short_network)) = None \<and>
   scene (snd (fst (init [] None short_network))) \<noteq> None \<and>
   map_option image_data (transmittanceTexture (snd (fst (init [] None short_network))))
     = Some [0, 0]"
proof -
  have "answer short_network Transmittance = Inr [0, 0, 0, 0, 0, 0, 0, 0]"
    by (simp add: answer_def short_network_def)
  moreover have "Float32Array [0, 0, 0, 0, 0, 0, 0, 0] = Inr [0, 0]"
    by (simp add: Float32Array_def float32_le_def)
  moreover note init_resolved [of short_network "[0, 0]" "[0, 0]" "[0, 0]" "[]" None]
  ultimately show ?thesis
    by (simp add: asset_floats_values)
qed

text \<open>
  C4, as the code has it. When the promise of any one of the three assets rejects, \<open>init\<close>
  ends with an exception, with no scene, no material, no window listeners and no animation
  loop; and the log of the network shows one request per file, whatever a further request
  would have been answered. The promise of an asset rejects when the fetch or the reading of
  the body fails or when the byte length of the body is not a multiple of 4, and in no other
  case: when no promise rejects, \<open>init\<close> builds the scene, whatever the status and the size
  of the replies.
\<close>

theorem init_aborts_on_failed_load:
  "(isl (settled net a) \<longrightarrow>
      (\<exists>e. fst (fst (init extensions help net)) = Some e) \<and>
      scene (snd (fst (init extensions help net))) = None \<and>
      material (snd (fst (init extensions help net))) = None \<and>
      \<not> windowListeners (snd (fst (init extensions help net))) \<and>
      \<not> animationLoop (snd (fst (init extensions help net))) \<and>
      requests (snd (init extensions help net)) = requests net @ asset_files) \<and>
   (isl (settled net a) \<longleftrightarrow>
      isl (answer net a) \<or> (\<exists>buffer. answer net a = Inr buffer \<and> length buffer mod 4 \<noteq> 0)) \<and>
   ((\<forall>b. \<not> isl (settled net b)) \<longrightarrow>
      fst (fst (init extensions help net)) = None \<and>
      scene (snd (fst (init extensions help net))) \<noteq> None \<and>
      requests (snd (init extensions help net)) = requests net @ asset_files)"
proof (intro conjI impI)
  assume "isl (settled net a)"
  from init_rejected [OF this, of extensions "help"]
  obtain e where e: "init extensions help net =
      ((Some e, Demo help), net\<lparr>requests := requests net @ asset_files\<rparr>)"
    by blast
  show "\<exists>e. fst (fst (init extensions help net)) = Some e"
    and "scene (snd (fst (init extensions help net))) = None"
    and "material (snd (fst (init extensions help net))) = None"
    and "\<not> windowListeners (snd (fst (init extensions help net)))"
    and "\<not> animationLoop (snd (fst (init extensions help net)))"
    and "requests (snd (init extensions help net)) = requests net @ asset_files"
    by (simp_all add: e Demo_def)
next
  show "isl (settled net a) \<longleftrightarrow>
      isl (answer net a) \<or> (\<exists>buffer. answer net a = Inr buffer \<and> length buffer mod 4 \<noteq> 0)"
    by (cases "answer net a") (simp_all add: settled_def Float32Array_def)
next
  assume none: "\<forall>b. \<not> isl (settled net b)"
  with settled_cases [of net] obtain transmittanceData scatteringData irradianceData where
    "settled net Transmittance = Inr transmittanceData"
    "settled net Scattering = Inr scatteringData"
    "settled net Irradiance = Inr irradianceData"
    by blast
  from init_resolved [OF this, of extensions "help"]
  show "fst (fst (init extensions help net)) = None"
    and "scene (snd (fst (init extensions help net))) \<noteq> None"
    and "requests (snd (init extensions help net)) = requests net @ asset_files"
    by simp_all
qed

theorem init_aborts_on_failed_load_witness:
  "isl (settled flaky_network Scattering) \<and>
   isl (answer flaky_network Scattering) \<and>
   respond flaky_network (asset_file Scattering) 1 = Inr [] \<and>
   (\<exists>e. fst (fst (init [] None flaky_network)) = Some e) \<and>
   scene (snd (fst (init [] None flaky_network))) = None \<and>
   requests (snd (init [] None flaky_network)) =
     [''/transmittance.dat'', ''/scattering.dat'', ''/irradiance.dat''] \<and>
   (\<forall>b. \<not> isl (settled short_network b)) \<and>
   fst (fst (init [] None short_network)) = None \<and>
   scene (snd (fst (init [] None short_network))) \<noteq> None"
proof -
  have failed: "isl (settled flaky_network Scattering)"
    by (simp add: settled_flaky)
  have again: "respond flaky_network (asset_file Scattering) 1 = Inr []"
    by (simp add: flaky_network_def)
  have log: "requests flaky_network = []"
    by (simp add: flaky_network_def)
  have fine: "\<forall>b. \<not> isl (settled short_network b)"
    by simp
  have fetch_failed: "isl (answer flaky_network Scattering)"
    by (simp add: answer_def flaky_network_def)
  from init_aborts_on_failed_load [of flaky_network Scattering "[]" None]
       init_aborts_on_failed_load [of short_network Scattering "[]" None]
       failed again log fine fetch_failed
  show ?thesis
    by (simp add: asset_files_def)
qed

text \<open>
  The request for the scattering table is answered with status 404 and a body of four bytes,
  which is not the size of the table; \<open>init\<close> completes and builds the scene, with a scattering
  texture of one element.
\<close>

theorem init_proceeds_on_error_reply:
  "reply_status notfound_network Scattering = 404 \<and>
   answer notfound_network Scattering = Inr [110, 111, 112, 101] \<and>
   length [110, 111, 112, 101 :: 8 word] \<noteq> asset_floats Scattering * 4 \<and>
   fst (fst (init [] None notfound_network)) = None \<and>
   scene (snd (fst (init [] None notfound_network))) \<noteq> None \<and>
   map_option image_data (scatteringTexture (snd (fst (init [] None notfound_network)))) =
     Some [float32_le 110 111 112 101]"
proof -
  have reply: "reply_status notfound_network Scattering = 404"
    "answer notfound_network Scattering = Inr [110, 111, 112, 101]"
    by (simp_all add: reply_status_def answer_def notfound_network_def)
  have "settled notfound_network Transmittance = Inr [0, 0]"
    "settled notfound_network Scattering = Inr [float32_le 110 111 112 101]"
    "settled notfound_network Irradiance = Inr [0, 0]"
    by (simp_all add: settled_def answer_def notfound_network_def Float32Array_def)
       (simp_all add: float32_le_def)
  from init_resolved [OF this, of "[]" None] reply
  show ?thesis
    by (simp add: asset_floats_values)
qed

section \<open>Binding the textures\<close>

text \<open>
  C8, as the code has it. When \<open>loadTextures\<close> succeeds, each of the three textures has linear
  magnification and minification filters and the type \<open>FloatType\<close>. The transmittance texture
  has the internal format \<open>RGBA32F\<close> when the context has the extension
  \<open>OES_texture_float_linear\<close> and \<open>RGBA16F\<close> otherwise; the scattering and the irradiance
  textures have \<open>RGBA16F\<close> in both cases.
\<close>

theorem loadTextures_formats:
  assumes "fst (fst (loadTextures extensions this net)) = None"
  shows "\<exists>t s i.
     transmittanceTexture (snd (fst (loadTextures extensions this net))) = Some t \<and>
     scatteringTexture (snd (fst (loadTextures extensions this net))) = Some s \<and>
     irradianceTexture (snd (fst (loadTextures extensions this net))) = Some i \<and>
     magFilter t = LinearFilter \<and> minFilter t = LinearFilter \<and> tex_type t = FloatType \<and>
     magFilter s = LinearFilter \<and> minFilter s = LinearFilter \<and> tex_type s = FloatType \<and>
     magFilter i = LinearFilter \<and> minFilter i = LinearFilter \<and> tex_type i = FloatType \<and>
     internalFormat t = Some (if extensions_has extensions ''OES_texture_float_linear''
                              then ''RGBA32F'' else ''RGBA16F'') \<and>
     internalFormat s = Some ''RGBA16F'' \<and>
     internalFormat i = Some ''RGBA16F''"
proof -
  from settled_cases [of net] show ?thesis
  proof (elim disjE exE conjE)
    fix a assume "isl (settled net a)"
    from loadTextures_rejected [OF this, of extensions "this"] assms
    show ?thesis by auto
  next
    fix transmittanceData scatteringData irradianceData
    assume "settled net Transmittance = Inr transmittanceData"
      "settled net Scattering = Inr scatteringData"
      "settled net Irradiance = Inr irradianceData"
    from loadTextures_resolved [OF this, of extensions "this"]
    show ?thesis by (simp add: DataTexture_def Data3DTexture_def)
  qed
qed

theorem loadTextures_formats_witness:
  "fst (fst (loadTextures [''OES_texture_float_linear''] (Demo None) short_network)) = None \<and>
   (\<exists>t s i.
      transmittanceTexture
        (snd (fst (loadTextures [''OES_texture_float_linear''] (Demo None) short_network)))
        = Some t \<and>
      scatteringTexture
        (snd (fst (loadTextures [''OES_texture_float_linear''] (Demo None) short_network)))
        = Some s \<and>
      irradianceTexture
        (snd (fst (loadTextures [''OES_texture_float_linear''] (Demo None) short_network)))
        = Some i \<and>
      internalFormat t = Some ''RGBA32F'' \<and> internalFormat s = Some ''RGBA16F'' \<and>
      internalFormat i = Some ''RGBA16F'' \<and>
      magFilter t = LinearFilter \<and> magFilter s = LinearFilter \<and> magFilter i = LinearFilter)"
proof -
  have ok: "fst (fst (loadTextures [''OES_texture_float_linear''] (Demo None) short_network))
              = None"
    by (rule loadTextures_short)
  have "extensions_has [''OES_texture_float_linear''] ''OES_texture_float_linear''"
    by (simp add: extensions_has_def)
  with loadTextures_formats [OF ok] ok show ?thesis
    by auto
qed

text \<open>
  With the extension present, the scattering and the irradiance textures still get the
  lower-precision format.
\<close>

theorem scattering_format_ignores_capability:
  "extensions_has [''OES_texture_float_linear''] ''OES_texture_float_linear'' \<and>
   fst (fst (loadTextures [''OES_texture_float_linear''] (Demo None) short_network)) = None \<and>
   map_option internalFormat
     (transmittanceTexture
        (snd (fst (loadTextures [''OES_texture_float_linear''] (Demo None) short_network)))) =
     Some (Some ''RGBA32F'') \<and>
   map_option internalFormat
     (scatteringTexture
        (snd (fst (loadTextures [''OES_texture_float_linear''] (Demo None) short_network)))) =
     Some (Some ''RGBA16F'') \<and>
   map_option internalFormat
     (irradianceTexture
        (snd (fst (loadTextures [''OES_texture_float_linear''] (Demo None) short_network)))) =
     Some (Some ''RGBA16F'')"
  by (simp add: loadTextures_short) (simp add: extensions_has_def)



section \<open>Numbers in the range of doubles\<close>

lemma min_normal_bounds: "0 < min_normal" "min_normal \<le> 1 / 2"
  by (simp_all add: min_normal_def)

lemma overflow_threshold_bounds:
  "2 ^ 1000 < overflow_threshold" "overflow_threshold \<le> 2 ^ 1024" "1 < overflow_threshold"
  by (simp_all add: overflow_threshold_def)

lemma round_half_even_zero: "round_half_even 0 = 0"
  by (simp add: round_half_even_def)

lemma to_number_representable: "representable x \<Longrightarrow> to_number x = Finite x"
proof -
  assume r: "representable x"
  have pos: "0 < overflow_threshold"
    using overflow_threshold_bounds(3) by linarith
  show ?thesis
  proof (cases "x = 0")
    case True
    with pos min_normal_bounds(1) show ?thesis
      by (simp add: to_number_def round_half_even_zero)
  next
    case False
    with r show ?thesis
      by (simp add: to_number_def representable_def)
  qed
qed

lemma representable_moderate:
  "1 / 2 \<le> \<bar>x\<bar> \<Longrightarrow> \<bar>x\<bar> \<le> 2 ^ 1000 \<Longrightarrow> representable x"
  using min_normal_bounds(2) overflow_threshold_bounds(1)
  by (simp add: representable_def)

lemma representable_zero: "representable 0"
  by (simp add: representable_def)

lemma to_number_overflow: "overflow_threshold \<le> x \<Longrightarrow> to_number x = PosInfinity"
proof -
  assume "overflow_threshold \<le> x"
  moreover have "0 < overflow_threshold"
    using overflow_threshold_bounds(3) by linarith
  ultimately show ?thesis
    by (simp add: to_number_def)
qed

lemma reciprocal: "js_divide (Finite 1) (Finite 1.05) = Finite (1 / 1.05)"
proof -
  have "representable (1 / 1.05)"
    by (rule representable_moderate) simp_all
  then show ?thesis
    by (simp add: to_number_representable)
qed



section \<open>Interaction\<close>

lemma spherical_exact:
  assumes "exact_products d z a"
  shows "spherical (Finite d) z a =
           (Finite (d * sin z * cos a), Finite (d * sin z * sin a), Finite (d * cos z))"
  using assms by (simp add: spherical_def exact_products_def to_number_representable)

lemma squared_norm_spherical:
  assumes "exact_products d z a"
  shows "squared_norm (spherical (Finite d) z a) = Some (d\<^sup>2)"
proof -
  have "d * sin z * cos a * (d * sin z * cos a) + d * sin z * sin a * (d * sin z * sin a) +
          d * cos z * (d * cos z) =
        d\<^sup>2 * ((sin z)\<^sup>2 * ((cos a)\<^sup>2 + (sin a)\<^sup>2) + (cos z)\<^sup>2)"
    by algebra
  also have "\<dots> = d\<^sup>2"
    by simp
  finally show ?thesis
    by (simp add: spherical_exact [OF assms] squared_norm_def)
qed

lemma camera_placed_norm:
  assumes "camera_placed this" and "viewDistanceMeters this = Finite v"
    and "representable (v / kLengthUnitInMeters)"
    and "exact_products (v / kLengthUnitInMeters)
           (viewZenithAngleRadians this) (viewAzimuthAngleRadians this)"
  shows "squared_norm (position (camera this)) = Some ((v / kLengthUnitInMeters)\<^sup>2)"
proof -
  have "js_divide (viewDistanceMeters this) (Finite kLengthUnitInMeters) =
          Finite (v / kLengthUnitInMeters)"
    using assms(2,3) by (simp add: to_number_representable kLengthUnitInMeters_def)
  with assms(1) have "position (camera this) =
      spherical (Finite (v / kLengthUnitInMeters))
        (viewZenithAngleRadians this) (viewAzimuthAngleRadians this)"
    by (simp add: camera_placed_def)
  then show ?thesis
    by (simp add: squared_norm_spherical [OF assms(4)])
qed

lemma place_camera_fields:
  "viewDistanceMeters (place_camera this) = viewDistanceMeters this"
  "viewZenithAngleRadians (place_camera this) = viewZenithAngleRadians this"
  "viewAzimuthAngleRadians (place_camera this) = viewAzimuthAngleRadians this"
  "sunZenithAngleRadians (place_camera this) = sunZenithAngleRadians this"
  "sunAzimuthAngleRadians (place_camera this) = sunAzimuthAngleRadians this"
  "drag (place_camera this) = drag this"
  "material (place_camera this) = material this"
  by (simp_all add: place_camera_def)

lemma place_camera_placed: "camera_placed (place_camera this)"
  by (simp add: camera_placed_def place_camera_def)

lemma wheel_distance:
  "viewDistanceMeters (fst (onMouseWheel event this)) =
     js_times (viewDistanceMeters this)
       (if deltaY event > 0 then Finite 1.05 else Finite (1 / 1.05))"
proof -
  have "js_divide (Finite 1) (Finite (21 / 20)) = Finite (20 / 21)"
    using reciprocal by simp
  then show ?thesis
    by (simp add: onMouseWheel_def place_camera_fields del: js_divide.simps)
qed

lemma wheel_angles:
  "viewZenithAngleRadians (fst (onMouseWheel event this)) = viewZenithAngleRadians this"
  "viewAzimuthAngleRadians (fst (onMouseWheel event this)) = viewAzimuthAngleRadians this"
  by (simp_all add: onMouseWheel_def place_camera_fields)

lemma wheel_placed: "camera_placed (fst (onMouseWheel event this))"
  by (simp add: onMouseWheel_def place_camera_placed)

lemma scroll_Cons:
  "scroll (event # events) this = scroll events (fst (onMouseWheel event this))"
  by (simp add: scroll_def)

lemma scroll_snoc:
  "scroll (events @ [event]) this = fst (onMouseWheel event (scroll events this))"
  by (simp add: scroll_def)

lemma scroll_angles:
  "viewZenithAngleRadians (scroll events this) = viewZenithAngleRadians this"
  "viewAzimuthAngleRadians (scroll events this) = viewAzimuthAngleRadians this"
  by (induction events arbitrary: this) (simp_all add: scroll_Cons wheel_angles, simp_all add: scroll_def)






lemma scroll_infinity:
  "viewDistanceMeters this = PosInfinity \<Longrightarrow>
   viewDistanceMeters (scroll events this) = PosInfinity"
proof (induction events arbitrary: this)
  case Nil
  then show ?case by (simp add: scroll_def)
next
  case (Cons event events)
  have "viewDistanceMeters (fst (onMouseWheel event this)) = PosInfinity"
    using Cons.prems by (simp add: wheel_distance)
  then show ?case
    by (simp add: scroll_Cons Cons.IH)
qed

lemma scroll_out_overflow:
  assumes "\<forall>event \<in> set events. deltaY event > 0"
    and "viewDistanceMeters this = Finite d" and "1 \<le> d" and "d < overflow_threshold"
  shows "viewDistanceMeters (scroll events this) =
           (if d * 1.05 ^ length events < overflow_threshold
            then Finite (d * 1.05 ^ length events) else PosInfinity)"
  using assms
proof (induction events arbitrary: this d)
  case Nil
  then show ?case by (simp add: scroll_def)
next
  case (Cons event events)
  have up: "0 < deltaY event" and rest: "\<forall>event \<in> set events. deltaY event > 0"
    using Cons.prems(1) by simp_all
  have grow: "(1::real) \<le> 1.05 ^ length events"
    by (rule one_le_power) simp
  have step: "viewDistanceMeters (fst (onMouseWheel event this)) = to_number (d * 1.05)"
    using up Cons.prems(2) by (simp add: wheel_distance)
  show ?case
  proof (cases "d * 1.05 < overflow_threshold")
    case True
    have "representable (d * 1.05)"
      using True Cons.prems(3) min_normal_bounds(2) by (simp add: representable_def)
    then have "viewDistanceMeters (fst (onMouseWheel event this)) = Finite (d * 1.05)"
      by (simp only: step to_number_representable)
    moreover have "1 \<le> d * 1.05"
      using Cons.prems(3) by simp
    ultimately have "viewDistanceMeters (scroll events (fst (onMouseWheel event this))) =
        (if d * 1.05 * 1.05 ^ length events < overflow_threshold
         then Finite (d * 1.05 * 1.05 ^ length events) else PosInfinity)"
      using True rest by (intro Cons.IH)
    then show ?thesis
      by (simp add: scroll_Cons mult.assoc)
  next
    case False
    then have "viewDistanceMeters (fst (onMouseWheel event this)) = PosInfinity"
      by (simp only: step to_number_overflow not_less)
    then have inf: "viewDistanceMeters (scroll (event # events) this) = PosInfinity"
      by (simp add: scroll_Cons scroll_infinity)
    have "d * 1.05 \<le> d * 1.05 * 1.05 ^ length events"
      using grow Cons.prems(3) by (simp add: mult_le_cancel_left1)
    with False have "\<not> d * 1.05 ^ length (event # events) < overflow_threshold"
      by (simp add: mult.assoc)
    with inf show ?thesis
      by (simp only: if_False)
  qed
qed

lemma power_105_overflows: "overflow_threshold \<le> 9000 * 1.05 ^ (167 * 86)"
proof -
  define q :: real where "q = 1.05 ^ 167"
  have "(3455::real) \<le> q"
    unfolding q_def by (simp add: power_divide)
  then have "(3455::real) ^ 86 \<le> q ^ 86"
    by (intro power_mono) simp_all
  moreover have "(2::real) ^ 1024 \<le> 9000 * 3455 ^ 86"
    by simp
  ultimately have "(2::real) ^ 1024 \<le> 9000 * q ^ 86"
    by linarith
  then have "(2::real) ^ 1024 \<le> 9000 * 1.05 ^ (167 * 86)"
    unfolding q_def by (simp only: power_mult)
  with overflow_threshold_bounds(2) show ?thesis
    by linarith
qed

lemma zoomed_out_overflows:
  assumes "167 * 86 \<le> n"
  shows "viewDistanceMeters (scroll (replicate n wheel_down) (Demo None)) = PosInfinity"
proof -
  define p :: real where "p = 1.05 ^ n"
  define p0 :: real where "p0 = 1.05 ^ (167 * 86)"
  have "p0 \<le> p"
    unfolding p_def p0_def using assms by (intro power_increasing) simp_all
  moreover have "overflow_threshold \<le> 9000 * p0"
    unfolding p0_def by (rule power_105_overflows)
  ultimately have big: "\<not> 9000 * p < overflow_threshold"
    by linarith
  have "viewDistanceMeters (scroll (replicate n wheel_down) (Demo None)) =
          (if 9000 * 1.05 ^ length (replicate n wheel_down) < overflow_threshold
           then Finite (9000 * 1.05 ^ length (replicate n wheel_down)) else PosInfinity)"
  proof (rule scroll_out_overflow)
    show "\<forall>event \<in> set (replicate n wheel_down). deltaY event > 0"
      by (simp add: wheel_down_def)
    show "viewDistanceMeters (Demo None) = Finite 9000"
      by (simp add: Demo_def)
    show "(1::real) \<le> 9000" by simp
    show "(9000::real) < overflow_threshold"
      using overflow_threshold_bounds(1) by (simp add: overflow_threshold_def)
  qed
  with big show ?thesis
    by (simp only: length_replicate p_def [symmetric] if_False)
qed

lemma far_away_distance: "viewDistanceMeters far_away = PosInfinity"
  unfolding far_away_def by (rule zoomed_out_overflows) simp

lemma scroll_placed: "events \<noteq> [] \<Longrightarrow> camera_placed (scroll events this)"
  by (cases events rule: rev_cases) (simp_all add: scroll_snoc wheel_placed)

lemma far_away_position:
  "fst (snd (position (camera far_away))) = NaN"
  "squared_norm (position (camera far_away)) = None"
  "fst (position (camera far_away)) = PosInfinity"
proof -
  have "replicate 14362 wheel_down \<noteq> []"
    by simp
  then have "camera_placed far_away"
    unfolding far_away_def by (rule scroll_placed)
  moreover have "viewZenithAngleRadians far_away = 1.47" "viewAzimuthAngleRadians far_away = 0"
    unfolding far_away_def by (simp_all only: scroll_angles) (simp_all add: Demo_def)
  ultimately have pos: "position (camera far_away) = spherical PosInfinity 1.47 0"
    by (simp add: camera_placed_def far_away_distance kLengthUnitInMeters_def)
  then show y: "fst (snd (position (camera far_away))) = NaN"
    by (simp add: spherical_def)
  obtain x z where "position (camera far_away) = (x, NaN, z)"
    using y by (metis fst_conv prod.collapse)
  then show "squared_norm (position (camera far_away)) = None"
    by (cases x) (simp_all add: squared_norm_def)
  have "0 < sin (1.47::real)"
    using pi_ge_two by (intro sin_gt_zero) simp_all
  then show "fst (position (camera far_away)) = PosInfinity"
    by (simp add: pos spherical_def)
qed

lemma onMouseMove_drag: "drag (snd (onMouseMove event this)) = drag this"
  by (simp add: onMouseMove_def Let_def place_camera_fields
           split: option.splits drag_target.splits)

lemma deliver_moves: "drag (deliver (map MouseMove moves) this) = drag this"
  by (induction moves arbitrary: this) (simp_all add: deliver_def onMouseMove_drag)

lemma onMouseDown_drag:
  "drag (onMouseDown event this) = Some (if ctrlKey event then Sun else Camera)"
  by (simp add: onMouseDown_def Let_def)

lemma clamp_bounds:
  "(0::real) \<le> hi \<Longrightarrow> 0 \<le> max 0 (min hi x) \<and> max 0 (min hi x) \<le> hi"
  by (simp add: max_def min_def)

lemma onMouseMove_view_zenith:
  "drag this = Some Camera \<Longrightarrow>
   viewZenithAngleRadians (snd (onMouseMove event this)) =
     max 0 (min (pi / 2)
       (viewZenithAngleRadians this + (previousMouseY this - offsetY event) / kScale))"
  by (simp add: onMouseMove_def Let_def place_camera_fields)

lemma onMouseMove_sun_zenith:
  "drag this = Some Sun \<Longrightarrow>
   sunZenithAngleRadians (snd (onMouseMove event this)) =
     max 0 (min pi
       (sunZenithAngleRadians this - (previousMouseY this - offsetY event) / kScale))"
  by (simp add: onMouseMove_def Let_def split: option.splits)

lemma setupScene_material: "material (setupScene this) \<noteq> None"
  by (simp add: setupScene_def)

lemma onMouseMove_camera:
  assumes "drag this = Some Camera"
  shows "viewZenithAngleRadians (snd (onMouseMove event this)) =
           max 0 (min (pi / 2)
             (viewZenithAngleRadians this + (previousMouseY this - offsetY event) / kScale))"
    and "viewAzimuthAngleRadians (snd (onMouseMove event this)) =
           viewAzimuthAngleRadians this + (previousMouseX this - offsetX event) / kScale"
    and "sunZenithAngleRadians (snd (onMouseMove event this)) = sunZenithAngleRadians this"
    and "sunAzimuthAngleRadians (snd (onMouseMove event this)) = sunAzimuthAngleRadians this"
    and "viewDistanceMeters (snd (onMouseMove event this)) = viewDistanceMeters this"
  using assms by (simp_all add: onMouseMove_def Let_def place_camera_fields)

lemma onMouseMove_sun:
  assumes "drag this = Some Sun"
  shows "sunZenithAngleRadians (snd (onMouseMove event this)) =
           max 0 (min pi
             (sunZenithAngleRadians this - (previousMouseY this - offsetY event) / kScale))"
    and "sunAzimuthAngleRadians (snd (onMouseMove event this)) =
           sunAzimuthAngleRadians this + (previousMouseX this - offsetX event) / kScale"
    and "viewZenithAngleRadians (snd (onMouseMove event this)) = viewZenithAngleRadians this"
    and "viewAzimuthAngleRadians (snd (onMouseMove event this)) = viewAzimuthAngleRadians this"
    and "viewDistanceMeters (snd (onMouseMove event this)) = viewDistanceMeters this"
    and "camera (snd (onMouseMove event this)) = camera this"
  using assms by (simp_all add: onMouseMove_def Let_def split: option.splits)

text \<open>
  The key listener is registered by \<open>setupEventListeners\<close>, which \<open>init\<close> reaches only after
  \<open>setupScene\<close>: whenever it is registered, the material is there.
\<close>

lemma key_listener_has_material:
  assumes "windowListeners (snd (fst (init extensions help net)))"
  shows "material (snd (fst (init extensions help net))) \<noteq> None"
proof -
  from settled_cases [of net] show ?thesis
  proof (elim disjE exE conjE)
    fix a assume "isl (settled net a)"
    from init_rejected [OF this, of extensions "help"] assms
    show ?thesis by (auto simp: Demo_def)
  next
    fix transmittanceData scatteringData irradianceData
    assume "settled net Transmittance = Inr transmittanceData"
      "settled net Scattering = Inr scatteringData"
      "settled net Irradiance = Inr irradianceData"
    from loadTextures_resolved [OF this, of extensions "Demo help"]
    show ?thesis
      by (simp add: init_def setView_def place_camera_def setupScene_def
            setupEventListeners_def startAnimationLoop_def Let_def)
  qed
qed

text \<open>
  C2. A pointer move while the camera is dragged leaves the view zenith angle in
  \<open>[0, \<pi>/2]\<close>, and a pointer move while the sun is dragged leaves the sun zenith angle in
  \<open>[0, \<pi>]\<close>, whatever the angle was before and however far the pointer moved. The zenith
  angle of the target that is not dragged is not touched.
\<close>

theorem drag_move_zenith_clamped:
  "(drag this = Some Camera \<longrightarrow>
      0 \<le> viewZenithAngleRadians (snd (onMouseMove event this)) \<and>
      viewZenithAngleRadians (snd (onMouseMove event this)) \<le> pi / 2 \<and>
      sunZenithAngleRadians (snd (onMouseMove event this)) = sunZenithAngleRadians this) \<and>
   (drag this = Some Sun \<longrightarrow>
      0 \<le> sunZenithAngleRadians (snd (onMouseMove event this)) \<and>
      sunZenithAngleRadians (snd (onMouseMove event this)) \<le> pi \<and>
      viewZenithAngleRadians (snd (onMouseMove event this)) = viewZenithAngleRadians this)"
proof (intro conjI impI)
  have half: "0 \<le> pi / 2" by simp
  assume dragging: "drag this = Some Camera"
  show "0 \<le> viewZenithAngleRadians (snd (onMouseMove event this))"
    and "viewZenithAngleRadians (snd (onMouseMove event this)) \<le> pi / 2"
    unfolding onMouseMove_view_zenith [OF dragging]
    using clamp_bounds [OF half] by blast+
  show "sunZenithAngleRadians (snd (onMouseMove event this)) = sunZenithAngleRadians this"
    using dragging by (simp add: onMouseMove_def Let_def place_camera_fields)
next
  assume dragging: "drag this = Some Sun"
  show "0 \<le> sunZenithAngleRadians (snd (onMouseMove event this))"
    and "sunZenithAngleRadians (snd (onMouseMove event this)) \<le> pi"
    unfolding onMouseMove_sun_zenith [OF dragging]
    using clamp_bounds [OF pi_ge_zero] by blast+
  show "viewZenithAngleRadians (snd (onMouseMove event this)) = viewZenithAngleRadians this"
    using dragging by (simp add: onMouseMove_def Let_def split: option.splits)
qed

theorem drag_move_zenith_clamped_witness:
  "drag (onMouseDown far_down (Demo None)) = Some Camera \<and>
   0 \<le> viewZenithAngleRadians (snd (onMouseMove far_up (onMouseDown far_down (Demo None)))) \<and>
   viewZenithAngleRadians (snd (onMouseMove far_up (onMouseDown far_down (Demo None))))
     \<le> pi / 2 \<and>
   drag (onMouseDown far_up (Demo None)) = Some Sun \<and>
   0 \<le> sunZenithAngleRadians (snd (onMouseMove far_down (onMouseDown far_up (Demo None)))) \<and>
   sunZenithAngleRadians (snd (onMouseMove far_down (onMouseDown far_up (Demo None)))) \<le> pi"
proof -
  have camera: "drag (onMouseDown far_down (Demo None)) = Some Camera"
    and sun: "drag (onMouseDown far_up (Demo None)) = Some Sun"
    by (simp_all add: onMouseDown_drag far_down_def far_up_def)
  with drag_move_zenith_clamped [of "onMouseDown far_down (Demo None)" far_up]
       drag_move_zenith_clamped [of "onMouseDown far_up (Demo None)" far_down]
  show ?thesis by simp
qed





text \<open>
  C5, as the code has it. \<open>setView\<close>, a pointer move while the camera is dragged and the wheel
  handler put the camera at the point that the placing block derives from \<open>distance\<close> =
  \<open>viewDistanceMeters / kLengthUnitInMeters\<close> and the view angles, and make it look at the
  origin \<open>(0, 0, 0)\<close>, as it does from \<open>setupCamera\<close> on. When the distance is finite and no
  product formed from it and the angles overflows or underflows, the squared norm of that
  point is \<open>distance\<^sup>2\<close>.
\<close>

theorem camera_on_sphere:
  "(exact_products distance zenith azimuth \<longrightarrow>
      squared_norm (spherical (Finite distance) zenith azimuth) = Some (distance\<^sup>2)) \<and>
   lookTarget (camera (Demo help)) = (0, 0, 0) \<and>
   camera_placed (snd (setView vd vz va sz sa ex this)) \<and>
   (drag this = Some Camera \<longrightarrow> camera_placed (snd (onMouseMove event this))) \<and>
   camera_placed (fst (onMouseWheel wheel this)) \<and>
   (camera_placed this \<and> viewDistanceMeters this = Finite v \<and>
    representable (v / kLengthUnitInMeters) \<and>
    exact_products (v / kLengthUnitInMeters)
      (viewZenithAngleRadians this) (viewAzimuthAngleRadians this) \<longrightarrow>
      squared_norm (position (camera this)) = Some ((v / kLengthUnitInMeters)\<^sup>2) \<and>
      lookTarget (camera this) = (0, 0, 0))"
proof (intro conjI impI)
  show "camera_placed (snd (setView vd vz va sz sa ex this))"
    by (simp add: setView_def Let_def camera_placed_def place_camera_def split: option.splits)
next
  assume "drag this = Some Camera"
  then show "camera_placed (snd (onMouseMove event this))"
    by (simp add: onMouseMove_def Let_def camera_placed_def place_camera_def)
qed (simp_all add: squared_norm_spherical Demo_def setupCamera_def wheel_placed
       camera_placed_norm, simp add: camera_placed_def)

theorem camera_on_sphere_witness:
  "exact_products 9 (pi / 2) 0 \<and>
   squared_norm (spherical (Finite 9) (pi / 2) 0) = Some 81 \<and>
   drag (onMouseDown far_down (Demo None)) = Some Camera \<and>
   camera_placed (snd (onMouseMove far_up (onMouseDown far_down (Demo None)))) \<and>
   viewDistanceMeters (snd (onMouseMove far_up (onMouseDown far_down (Demo None)))) =
     Finite 9000 \<and>
   representable (9000 / kLengthUnitInMeters) \<and>
   exact_products (9000 / kLengthUnitInMeters)
     (viewZenithAngleRadians (snd (onMouseMove far_up (onMouseDown far_down (Demo None)))))
     (viewAzimuthAngleRadians (snd (onMouseMove far_up (onMouseDown far_down (Demo None))))) \<and>
   squared_norm (position (camera (snd (onMouseMove far_up (onMouseDown far_down (Demo None))))))
     = Some 81 \<and>
   lookTarget (camera (snd (onMouseMove far_up (onMouseDown far_down (Demo None))))) = (0, 0, 0)"
proof -
  let ?s = "snd (onMouseMove far_up (onMouseDown far_down (Demo None)))"
  have nine: "representable 9"
    by (rule representable_moderate) simp_all
  have products: "exact_products 9 (pi / 2) 0"
    using nine by (simp add: exact_products_def representable_zero)
  have dragging: "drag (onMouseDown far_down (Demo None)) = Some Camera"
    by (simp add: onMouseDown_drag far_down_def)
  have distance: "viewDistanceMeters ?s = Finite 9000"
    by (simp add: onMouseMove_def onMouseDown_def Demo_def Let_def place_camera_fields
          far_down_def)
  have "pi / 2 \<le> 1.47 + (1000000 - - 1000000) / 500"
    using pi_less_4 by simp
  then have zenith: "viewZenithAngleRadians ?s = pi / 2"
    by (simp add: onMouseMove_view_zenith [OF dragging])
       (simp add: onMouseDown_def Demo_def far_down_def far_up_def kScale_def Let_def
          min_def max_def)
  have azimuth: "viewAzimuthAngleRadians ?s = 0"
    by (simp add: onMouseMove_def onMouseDown_def Demo_def Let_def place_camera_fields
          far_down_def far_up_def)
  have scaled: "9000 / kLengthUnitInMeters = 9"
    by (simp add: kLengthUnitInMeters_def)
  have products_s: "exact_products (9000 / kLengthUnitInMeters)
      (viewZenithAngleRadians ?s) (viewAzimuthAngleRadians ?s)"
    unfolding zenith azimuth scaled by (rule products)
  have nine_s: "representable (9000 / kLengthUnitInMeters)"
    unfolding scaled by (rule nine)
  have placed: "camera_placed ?s"
    using camera_on_sphere [of 9 "pi / 2" 0 None "Finite 9000" 0 0 0 0 "Finite 10"
         "onMouseDown far_down (Demo None)" far_up wheel_down 9000] dragging
    by blast
  have "squared_norm (position (camera ?s)) = Some ((9000 / kLengthUnitInMeters)\<^sup>2) \<and>
      lookTarget (camera ?s) = (0, 0, 0)"
    using camera_on_sphere [of 9 "pi / 2" 0 None "Finite 9000" 0 0 0 0 "Finite 10"
         ?s far_up wheel_down 9000] placed distance nine_s products_s
    by blast
  moreover have "squared_norm (spherical (Finite 9) (pi / 2) 0) = Some (9\<^sup>2)"
    using camera_on_sphere [of 9 "pi / 2" 0 None "Finite 9000" 0 0 0 0 "Finite 10"
         ?s far_up wheel_down 9000] products
    by blast
  ultimately show ?thesis
    using products dragging placed distance nine_s products_s
    by (simp add: scaled)
qed

text \<open>
  After 14362 wheel events of positive delta the view distance is \<open>Infinity\<close>; the wheel
  handler has put the camera at a point whose first coordinate is \<open>Infinity\<close> and whose
  second coordinate is \<open>NaN\<close> (\<open>Infinity\<close> times \<open>sin 0\<close>), and which has no squared norm.
\<close>

theorem camera_position_undefined_far_away:
  "viewDistanceMeters far_away = PosInfinity \<and>
   camera_placed far_away \<and>
   fst (position (camera far_away)) = PosInfinity \<and>
   fst (snd (position (camera far_away))) = NaN \<and>
   squared_norm (position (camera far_away)) = None"
proof -
  have "replicate 14362 wheel_down \<noteq> []"
    by simp
  then have "camera_placed far_away"
    unfolding far_away_def by (rule scroll_placed)
  then show ?thesis
    by (simp add: far_away_distance far_away_position)
qed


text \<open>
  C6. The key \<open>1\<close> sets the view distance to 9000, the view zenith angle to 1.47, the view
  azimuth angle to 0, the sun zenith angle to 1.3 and the sun azimuth angle to 3, and, the
  material being there (as it is whenever the key listener is registered), the exposure to 10.
\<close>

theorem preset_key_1:
  "viewDistanceMeters (snd (onKeyPress ''1'' this)) = Finite 9000 \<and>
   viewZenithAngleRadians (snd (onKeyPress ''1'' this)) = 1.47 \<and>
   viewAzimuthAngleRadians (snd (onKeyPress ''1'' this)) = 0 \<and>
   sunZenithAngleRadians (snd (onKeyPress ''1'' this)) = 1.3 \<and>
   sunAzimuthAngleRadians (snd (onKeyPress ''1'' this)) = 3 \<and>
   (material this \<noteq> None \<longrightarrow>
      fst (onKeyPress ''1'' this) = None \<and>
      map_option exposure (material (snd (onKeyPress ''1'' this))) = Some (Finite 10))"
  by (auto simp: onKeyPress_def setView_def Let_def place_camera_def split: option.splits)

theorem preset_key_1_witness:
  "material (setupScene (Demo None)) \<noteq> None \<and>
   fst (onKeyPress ''1'' (setupScene (Demo None))) = None \<and>
   map_option exposure (material (snd (onKeyPress ''1'' (setupScene (Demo None))))) =
     Some (Finite 10) \<and>
   viewDistanceMeters (snd (onKeyPress ''1'' (setupScene (Demo None)))) = Finite 9000 \<and>
   sunAzimuthAngleRadians (snd (onKeyPress ''1'' (setupScene (Demo None)))) = 3"
  using preset_key_1 [of "setupScene (Demo None)"] setupScene_material [of "Demo None"]
  by simp

text \<open>
  C7. The drag target is one of: none (idle), camera, sun. A press without the control key
  gives camera and a press with it gives sun, from idle as from any other state. A pointer
  move leaves the drag target as it is; while the camera is dragged it replaces the view
  zenith angle by the clamped sum of the angle and the scaled vertical pointer delta and adds
  the scaled horizontal delta to the view azimuth angle, and leaves the sun angles and the
  view distance as they are; while the sun is dragged it does the same to the sun angles
  (the vertical delta subtracted), and leaves the view angles, the view distance and the
  camera as they are. A release gives idle and changes nothing else. Hence during a gesture
  (a press followed by moves) the target is the one chosen by the press, and after the
  release that ends it the target is idle again.
\<close>

theorem drag_state_machine:
  "(UNIV :: drag_target option set) = {None, Some Camera, Some Sun} \<and>
   (drag this = None \<and> \<not> ctrlKey event \<longrightarrow> drag (onMouseDown event this) = Some Camera) \<and>
   (drag this = None \<and> ctrlKey event \<longrightarrow> drag (onMouseDown event this) = Some Sun) \<and>
   drag (onMouseDown event this) = Some (if ctrlKey event then Sun else Camera) \<and>
   drag (snd (onMouseMove event this)) = drag this \<and>
   (drag this = Some Camera \<longrightarrow>
      viewZenithAngleRadians (snd (onMouseMove event this)) =
        max 0 (min (pi / 2)
          (viewZenithAngleRadians this + (previousMouseY this - offsetY event) / kScale)) \<and>
      viewAzimuthAngleRadians (snd (onMouseMove event this)) =
        viewAzimuthAngleRadians this + (previousMouseX this - offsetX event) / kScale \<and>
      sunZenithAngleRadians (snd (onMouseMove event this)) = sunZenithAngleRadians this \<and>
      sunAzimuthAngleRadians (snd (onMouseMove event this)) = sunAzimuthAngleRadians this \<and>
      viewDistanceMeters (snd (onMouseMove event this)) = viewDistanceMeters this) \<and>
   (drag this = Some Sun \<longrightarrow>
      sunZenithAngleRadians (snd (onMouseMove event this)) =
        max 0 (min pi
          (sunZenithAngleRadians this - (previousMouseY this - offsetY event) / kScale)) \<and>
      sunAzimuthAngleRadians (snd (onMouseMove event this)) =
        sunAzimuthAngleRadians this + (previousMouseX this - offsetX event) / kScale \<and>
      viewZenithAngleRadians (snd (onMouseMove event this)) = viewZenithAngleRadians this \<and>
      viewAzimuthAngleRadians (snd (onMouseMove event this)) = viewAzimuthAngleRadians this \<and>
      viewDistanceMeters (snd (onMouseMove event this)) = viewDistanceMeters this \<and>
      camera (snd (onMouseMove event this)) = camera this) \<and>
   onMouseUp event this = this\<lparr>drag := None\<rparr> \<and>
   drag (onMouseUp event this) = None \<and>
   drag (deliver (MouseDown press # map MouseMove moves) this) =
     Some (if ctrlKey press then Sun else Camera) \<and>
   drag (deliver (MouseDown press # map MouseMove moves @ [MouseUp release]) this) = None"
proof (intro conjI)
  show "(UNIV :: drag_target option set) = {None, Some Camera, Some Sun}"
    by (auto simp: UNIV_option_conv intro: drag_target.exhaust)
next
  have Cons: "\<And>e es s. deliver (e # es) s = deliver es (dispatch e s)"
    by (simp add: deliver_def)
  show "drag (deliver (MouseDown press # map MouseMove moves) this) =
          Some (if ctrlKey press then Sun else Camera)"
    by (simp only: Cons deliver_moves dispatch.simps onMouseDown_drag)
  have "deliver (MouseDown press # map MouseMove moves @ [MouseUp release]) this =
          onMouseUp release (deliver (MouseDown press # map MouseMove moves) this)"
    by (simp add: deliver_def)
  then show "drag (deliver (MouseDown press # map MouseMove moves @ [MouseUp release]) this)
      = None"
    by (simp add: onMouseUp_def)
next
  show "drag this = Some Camera \<longrightarrow>
      viewZenithAngleRadians (snd (onMouseMove event this)) =
        max 0 (min (pi / 2)
          (viewZenithAngleRadians this + (previousMouseY this - offsetY event) / kScale)) \<and>
      viewAzimuthAngleRadians (snd (onMouseMove event this)) =
        viewAzimuthAngleRadians this + (previousMouseX this - offsetX event) / kScale \<and>
      sunZenithAngleRadians (snd (onMouseMove event this)) = sunZenithAngleRadians this \<and>
      sunAzimuthAngleRadians (snd (onMouseMove event this)) = sunAzimuthAngleRadians this \<and>
      viewDistanceMeters (snd (onMouseMove event this)) = viewDistanceMeters this"
    using onMouseMove_camera [of this event] by blast
next
  show "drag this = Some Sun \<longrightarrow>
      sunZenithAngleRadians (snd (onMouseMove event this)) =
        max 0 (min pi
          (sunZenithAngleRadians this - (previousMouseY this - offsetY event) / kScale)) \<and>
      sunAzimuthAngleRadians (snd (onMouseMove event this)) =
        sunAzimuthAngleRadians this + (previousMouseX this - offsetX event) / kScale \<and>
      viewZenithAngleRadians (snd (onMouseMove event this)) = viewZenithAngleRadians this \<and>
      viewAzimuthAngleRadians (snd (onMouseMove event this)) = viewAzimuthAngleRadians this \<and>
      viewDistanceMeters (snd (onMouseMove event this)) = viewDistanceMeters this \<and>
      camera (snd (onMouseMove event this)) = camera this"
    using onMouseMove_sun [of this event] by blast
qed (simp_all add: onMouseDown_drag onMouseMove_drag onMouseUp_def)

theorem drag_state_machine_witness:
  "drag (Demo None) = None \<and> \<not> ctrlKey press_camera \<and> ctrlKey press_sun \<and>
   drag (onMouseDown press_camera (Demo None)) = Some Camera \<and>
   drag (onMouseDown press_sun (Demo None)) = Some Sun \<and>
   viewZenithAngleRadians (snd (onMouseMove move_away (onMouseDown press_camera (Demo None))))
     = 0.97 \<and>
   viewAzimuthAngleRadians (snd (onMouseMove move_away (onMouseDown press_camera (Demo None))))
     = - 0.2 \<and>
   sunZenithAngleRadians (snd (onMouseMove move_away (onMouseDown press_sun (Demo None))))
     = 1.8 \<and>
   sunAzimuthAngleRadians (snd (onMouseMove move_away (onMouseDown press_sun (Demo None))))
     = 2.7 \<and>
   drag (deliver [MouseDown press_sun, MouseMove move_away, MouseMove far_up] (Demo None))
     = Some Sun \<and>
   drag (deliver [MouseDown press_sun, MouseMove move_away, MouseMove far_up, MouseUp far_up]
           (Demo None)) = None"
proof -
  have camera: "drag (onMouseDown press_camera (Demo None)) = Some Camera"
    and sun: "drag (onMouseDown press_sun (Demo None)) = Some Sun"
    by (simp_all add: onMouseDown_drag press_camera_def press_sun_def)
  have clamp: "min (pi / 2) (97 / 100) = 97 / 100" "min pi (9 / 5) = 9 / 5"
    using pi_ge_two by (simp_all add: min_def)
  have start:
    "viewZenithAngleRadians (onMouseDown press_camera (Demo None)) = 1.47"
    "viewAzimuthAngleRadians (onMouseDown press_camera (Demo None)) = 0"
    "previousMouseX (onMouseDown press_camera (Demo None)) = 0"
    "previousMouseY (onMouseDown press_camera (Demo None)) = 0"
    "sunZenithAngleRadians (onMouseDown press_sun (Demo None)) = 1.3"
    "sunAzimuthAngleRadians (onMouseDown press_sun (Demo None)) = 2.9"
    "previousMouseX (onMouseDown press_sun (Demo None)) = 0"
    "previousMouseY (onMouseDown press_sun (Demo None)) = 0"
    "offsetX move_away = 100" "offsetY move_away = 250"
    by (simp_all add: onMouseDown_def Demo_def press_camera_def press_sun_def move_away_def
          Let_def)
  have idle: "drag (Demo None) = None" "\<not> ctrlKey press_camera" "ctrlKey press_sun"
    by (simp_all add: Demo_def press_camera_def press_sun_def)
  have a: "(100::real) / 500 = 0.2" "(2.9::real) + (0 - 100) / 500 = 2.7"
    by simp_all
  from drag_state_machine [of "onMouseDown press_camera (Demo None)" move_away press_sun
         "[move_away, far_up]" far_up]
       drag_state_machine [of "onMouseDown press_sun (Demo None)" move_away press_sun
         "[move_away, far_up]" far_up]
       drag_state_machine [of "Demo None" press_camera press_sun "[move_away, far_up]" far_up]
       drag_state_machine [of "Demo None" press_sun press_sun "[move_away, far_up]" far_up]
       camera sun idle
  show ?thesis
    by (simp add: start clamp kScale_def)
qed

text \<open>
  C9. A pointer move while no drag is active returns at once, without an exception, and
  leaves the whole object as it was.
\<close>

theorem idle_move_changes_nothing:
  "drag this = None \<Longrightarrow> onMouseMove event this = (None, this)"
  by (simp add: onMouseMove_def)

theorem idle_move_changes_nothing_witness:
  "drag (Demo None) = None \<and> onMouseMove far_down (Demo None) = (None, Demo None)"
  using idle_move_changes_nothing [of "Demo None" far_down]
  by (simp add: Demo_def)

text \<open>
  C10. A wheel event of vertical delta 0 multiplies the view distance by \<open>1 / 1.05\<close>, as one
  of negative delta does; one of positive delta multiplies it by \<open>1.05\<close>. For a finite
  distance whose product is zero or in the range of the normal doubles the result is the
  exact product, and then (the distance not being 0) only a positive delta gives the
  distance times \<open>1.05\<close>.
\<close>

theorem wheel_zero_delta_zooms_in:
  "(deltaY event = 0 \<longrightarrow>
      viewDistanceMeters (fst (onMouseWheel event this)) =
        js_times (viewDistanceMeters this) (Finite (1 / 1.05))) \<and>
   (deltaY event < 0 \<longrightarrow>
      viewDistanceMeters (fst (onMouseWheel event this)) =
        js_times (viewDistanceMeters this) (Finite (1 / 1.05))) \<and>
   (deltaY event > 0 \<longrightarrow>
      viewDistanceMeters (fst (onMouseWheel event this)) =
        js_times (viewDistanceMeters this) (Finite 1.05)) \<and>
   (viewDistanceMeters this = Finite d \<and> representable (d * (1 / 1.05)) \<and>
    deltaY event \<le> 0 \<longrightarrow>
      viewDistanceMeters (fst (onMouseWheel event this)) = Finite (d * (1 / 1.05))) \<and>
   (viewDistanceMeters this = Finite d \<and> representable (d * 1.05) \<and> deltaY event > 0 \<longrightarrow>
      viewDistanceMeters (fst (onMouseWheel event this)) = Finite (d * 1.05)) \<and>
   (viewDistanceMeters this = Finite d \<and> d \<noteq> 0 \<and> representable (d * (1 / 1.05)) \<and>
    viewDistanceMeters (fst (onMouseWheel event this)) = Finite (d * 1.05) \<longrightarrow>
      deltaY event > 0)"
proof -
  have exact: "\<And>c. representable (d * c) \<Longrightarrow> js_times (Finite d) (Finite c) = Finite (d * c)"
    by (simp add: to_number_representable)
  have down: "viewDistanceMeters this = Finite d \<Longrightarrow> representable (d * (1 / 1.05)) \<Longrightarrow>
      \<not> deltaY event > 0 \<Longrightarrow>
      viewDistanceMeters (fst (onMouseWheel event this)) = Finite (d * (1 / 1.05))"
    by (simp only: wheel_distance if_False exact)
  have up: "viewDistanceMeters this = Finite d \<Longrightarrow> representable (d * 1.05) \<Longrightarrow>
      deltaY event > 0 \<Longrightarrow>
      viewDistanceMeters (fst (onMouseWheel event this)) = Finite (d * 1.05)"
    by (simp only: wheel_distance if_True exact)
  have only: "viewDistanceMeters this = Finite d \<Longrightarrow> d \<noteq> 0 \<Longrightarrow>
      representable (d * (1 / 1.05)) \<Longrightarrow>
      viewDistanceMeters (fst (onMouseWheel event this)) = Finite (d * 1.05) \<Longrightarrow>
      deltaY event > 0"
  proof (rule ccontr)
    assume a: "viewDistanceMeters this = Finite d" "d \<noteq> 0" "representable (d * (1 / 1.05))"
      "viewDistanceMeters (fst (onMouseWheel event this)) = Finite (d * 1.05)"
      "\<not> deltaY event > 0"
    from down [OF a(1,3,5)] a(4) have "d * (1 / 1.05) = d * 1.05"
      by simp
    with a(2) show False
      by simp
  qed
  show ?thesis
    using down up only by (auto simp: wheel_distance)
qed

theorem wheel_zero_delta_zooms_in_witness:
  "deltaY wheel_still = 0 \<and> deltaY wheel_up < 0 \<and> deltaY wheel_down > 0 \<and>
   viewDistanceMeters (Demo None) = Finite 9000 \<and>
   representable (9000 * (1 / 1.05)) \<and> representable (9000 * 1.05) \<and>
   viewDistanceMeters (fst (onMouseWheel wheel_still (Demo None))) =
     Finite (9000 * (1 / 1.05)) \<and>
   viewDistanceMeters (fst (onMouseWheel wheel_up (Demo None))) = Finite (9000 * (1 / 1.05)) \<and>
   viewDistanceMeters (fst (onMouseWheel wheel_down (Demo None))) = Finite (9000 * 1.05)"
proof -
  have r: "representable (9000 * (1 / 1.05))" "representable (9000 * 1.05)"
    by (rule representable_moderate; simp)+
  have e: "deltaY wheel_still = 0" "deltaY wheel_up < 0" "deltaY wheel_down > 0"
    "viewDistanceMeters (Demo None) = Finite 9000"
    by (simp_all add: Demo_def wheel_still_def wheel_up_def wheel_down_def)
  from wheel_zero_delta_zooms_in [of wheel_still "Demo None" 9000]
       wheel_zero_delta_zooms_in [of wheel_up "Demo None" 9000]
       wheel_zero_delta_zooms_in [of wheel_down "Demo None" 9000] r e
  show ?thesis
    by (simp add: to_number_representable)
qed


end
